theory Spec2Isabelle
  imports Complex_Main "HOL-Library.Multiset" "HOL-Library.Sublist" "HOL-Library.AList"
begin

section \<open>Data model\<close>

text \<open>
  The aggregation pipeline of \<^verbatim>\<open>src/data_processor.py\<close> and \<^verbatim>\<open>src/insight_generator.py\<close>.

  Numbers: Python's \<^verbatim>\<open>float\<close> and \<^verbatim>\<open>int\<close> values are modelled as exact reals and
  naturals; rounding of IEEE doubles is outside this model.
  Dictionaries whose iteration order is visible (counters, topic mappings, per-source
  tables) are association lists in insertion order.
  An item is a JSON object: a key that may be missing is an \<open>option\<close> field and every
  \<^verbatim>\<open>item.get(key, default)\<close> of the source is an accessor below.
\<close>

datatype engagement_field =
    NotADict
  | EngagementDict (normalized_engagement: "real option") (total_engagement: "real option")

record item =
  source :: "string option"
  content :: "string option"
  text_field :: "string option"
  caption :: "string option"
  entities :: "string list option"
  hashtags :: "string list option"
  relevance_score :: "real option"
  engagement :: "engagement_field option"

text \<open>\<^verbatim>\<open>item.get("entities", [])\<close> and \<^verbatim>\<open>item.get("hashtags", [])\<close>.\<close>

definition get_entities :: "item \<Rightarrow> string list" where
  "get_entities i = (case entities i of None \<Rightarrow> [] | Some es \<Rightarrow> es)"

definition get_hashtags :: "item \<Rightarrow> string list" where
  "get_hashtags i = (case hashtags i of None \<Rightarrow> [] | Some hs \<Rightarrow> hs)"

text \<open>\<^verbatim>\<open>item.get("relevance_score", 0)\<close>.\<close>

definition get_relevance_score :: "item \<Rightarrow> real" where
  "get_relevance_score i = (case relevance_score i of None \<Rightarrow> 0 | Some r \<Rightarrow> r)"

text \<open>\<^verbatim>\<open>item.get("source", default)\<close>; the default differs between call sites.\<close>

definition get_source :: "string \<Rightarrow> item \<Rightarrow> string" where
  "get_source dflt i = (case source i of None \<Rightarrow> dflt | Some s \<Rightarrow> s)"

text \<open>
  The free-text field: \<^verbatim>\<open>content\<close>, else \<^verbatim>\<open>text\<close>, else \<^verbatim>\<open>caption\<close>, else the empty
  string (the \<^verbatim>\<open>if/elif/elif\<close> chain of \<^verbatim>\<open>extract_key_facts\<close>).
\<close>

definition get_content :: "item \<Rightarrow> string" where
  "get_content i =
     (case content i of Some c \<Rightarrow> c
      | None \<Rightarrow> (case text_field i of Some t \<Rightarrow> t
                 | None \<Rightarrow> (case caption i of Some c \<Rightarrow> c | None \<Rightarrow> [])))"

text \<open>
  The engagement value, computed inline (and identically) by \<^verbatim>\<open>filter_by_engagement\<close>,
  \<^verbatim>\<open>extract_trending_topics\<close> and \<^verbatim>\<open>generate_engagement_metrics\<close>:
  \<^verbatim>\<open>normalized_engagement\<close> if the engagement field is a dict holding it, else
  \<^verbatim>\<open>total_engagement\<close> if present, else 0.
\<close>

definition engagement_value :: "item \<Rightarrow> real" where
  "engagement_value i =
     (case engagement i of
        None \<Rightarrow> 0
      | Some NotADict \<Rightarrow> 0
      | Some (EngagementDict (Some n) t) \<Rightarrow> n
      | Some (EngagementDict None (Some t)) \<Rightarrow> t
      | Some (EngagementDict None None) \<Rightarrow> 0)"

datatype level = Alta | Media | Baixa

record trend_candidate =
  topic :: string
  count :: nat
  avg_engagement :: real
  sources :: "string list"
  related_items_count :: nat

text \<open>\<^verbatim>\<open>consolidate_data\<close> adds \<^verbatim>\<open>key_facts\<close> to every trend candidate.\<close>

record trend_topic = trend_candidate +
  key_facts :: "string list"

record consolidated_data =
  c_total_items :: nat
  filtered_items :: nat
  topics :: "(string \<times> item list) list"
  trending_topics :: "trend_topic list"
  processed_at :: string

text \<open>
  A topic insight; the \<^verbatim>\<open>summary\<close> sentence (number formatting of a float) is left out.
\<close>

record topic_insight =
  ins_topic :: string
  mentions :: nat
  ins_engagement :: real
  trend_score :: real
  trend_status :: level
  ins_sources :: "string list"
  ins_key_facts :: "string list"

text \<open>The two rationale templates of a recommendation, each interpolating the topic.\<close>

datatype rationale = CriarMateria string | ConsiderarMateria string

record recommendation =
  rec_topic :: string
  rec_key_facts :: "string list"
  rec_text :: rationale
  priority :: level

record metrics_acc =
  total_items :: nat
  total_engagement :: real
  m_avg_engagement :: real
  high_engagement_items :: nat

record source_metrics = metrics_acc +
  high_engagement_percentage :: real

record source_share =
  share_count :: nat
  percentage :: real

record insight_bundle =
  source_distribution :: "(string \<times> source_share) list"
  topic_insights :: "topic_insight list"
  engagement_metrics :: "(string \<times> source_metrics) list"
  content_recommendations :: "recommendation list"
  generated_at :: string

text \<open>
  What the code takes from outside the repository and the interpreter: \<^verbatim>\<open>str.lower\<close>,
  \<^verbatim>\<open>str.split\<close>, NLTK's \<^verbatim>\<open>sent_tokenize\<close>, the iteration order of a \<^verbatim>\<open>set\<close> built from a
  list of strings (it depends on the string hashes of the running process), and the two
  readings of the clock.
\<close>

record runtime =
  str_lower :: "string \<Rightarrow> string"
  str_split :: "string \<Rightarrow> string list"
  sent_tokenize :: "string \<Rightarrow> string list"
  set_order :: "string list \<Rightarrow> string list"
  now_processed :: string
  now_generated :: string

text \<open>
  \<^verbatim>\<open>list(set(xs))\<close> holds every distinct element of \<open>xs\<close> exactly once, in some order.
\<close>

definition set_order_ok :: "(string list \<Rightarrow> string list) \<Rightarrow> bool" where
  "set_order_ok ord \<longleftrightarrow> (\<forall>xs. distinct (ord xs) \<and> set (ord xs) = set xs)"

section \<open>Counters\<close>

text \<open>
  \<^verbatim>\<open>collections.Counter\<close>: keys in first-insertion order, each with its number of
  occurrences.
\<close>

type_synonym 'a counter = "('a \<times> nat) list"

fun counter_incr :: "'a \<Rightarrow> 'a counter \<Rightarrow> 'a counter" where
  "counter_incr x [] = [(x, 1)]"
| "counter_incr x ((k, c) # kcs) =
     (if k = x then (k, Suc c) # kcs else (k, c) # counter_incr x kcs)"

definition Counter :: "'a list \<Rightarrow> 'a counter" where
  "Counter xs = fold counter_incr xs []"

text \<open>\<^verbatim>\<open>counter[k]\<close>: a missing key counts 0.\<close>

definition counter_get :: "'a counter \<Rightarrow> 'a \<Rightarrow> nat" where
  "counter_get c k = (case map_of c k of None \<Rightarrow> 0 | Some n \<Rightarrow> n)"

text \<open>
  \<^verbatim>\<open>Counter.__add__\<close>: the keys of the left operand with the summed count, then the keys
  only the right operand has; only positive counts are kept.
\<close>

definition counter_add :: "'a counter \<Rightarrow> 'a counter \<Rightarrow> 'a counter" where
  "counter_add a b =
     filter (\<lambda>(k, c). 0 < c) (map (\<lambda>(k, c). (k, c + counter_get b k)) a)
     @ filter (\<lambda>(k, c). k \<notin> set (map fst a) \<and> 0 < c) b"

text \<open>
  \<^verbatim>\<open>Counter.most_common(n)\<close> is \<^verbatim>\<open>heapq.nlargest(n, items, key=count)\<close>, documented as
  \<^verbatim>\<open>sorted(items, key=count, reverse=True)[:n]\<close>. Python's sort is stable, also with
  \<^verbatim>\<open>reverse=True\<close>: entries of equal key keep their original order.
\<close>

definition sort_desc :: "('a \<Rightarrow> 'b::{linorder,uminus}) \<Rightarrow> 'a list \<Rightarrow> 'a list" where
  "sort_desc key xs = sort_key (\<lambda>x. - key x) xs"

definition most_common :: "nat \<Rightarrow> 'a counter \<Rightarrow> 'a counter" where
  "most_common n c = take n (sort_desc (\<lambda>(k, cnt). int cnt) c)"

section \<open>The data processor\<close>

subsection \<open>Loading\<close>

text \<open>
  \<^verbatim>\<open>load_data\<close> opens and parses a file inside \<^verbatim>\<open>try/except Exception\<close>; the file system
  is a function from paths to what a read meets there.
\<close>

datatype file_state = Missing | Corrupt | Parsed "item list"

datatype load_error = FileNotFoundError | JSONDecodeError

definition read_json :: "(string \<Rightarrow> file_state) \<Rightarrow> string \<Rightarrow> load_error + item list" where
  "read_json fs file_path =
     (case fs file_path of
        Missing \<Rightarrow> Inl FileNotFoundError
      | Corrupt \<Rightarrow> Inl JSONDecodeError
      | Parsed data \<Rightarrow> Inr data)"

definition load_data :: "(string \<Rightarrow> file_state) \<Rightarrow> string \<Rightarrow> item list" where
  "load_data fs file_path =
     (case read_json fs file_path of Inr data \<Rightarrow> data | Inl e \<Rightarrow> [])"

subsection \<open>Relevance and engagement filters\<close>

definition filter_by_relevance :: "real \<Rightarrow> item list \<Rightarrow> item list" where
  "filter_by_relevance min_relevance_score data =
     filter (\<lambda>i. get_relevance_score i \<ge> min_relevance_score) data"

text \<open>
  \<^verbatim>\<open>pandas.Series.quantile(q)\<close> with its default linear interpolation: it raises
  \<^verbatim>\<open>ValueError\<close> unless \<open>0 \<le> q \<le> 1\<close>, and otherwise reads the sorted values at the
  position \<open>q * (n - 1)\<close>, interpolating linearly between the two neighbours.
  On an empty series pandas yields NaN, which the reals do not hold: the model marks
  that case \<open>EmptySeries\<close>; the only call site never reaches it.
\<close>

datatype py_error = ValueError | EmptySeries

definition lerp_quantile :: "real list \<Rightarrow> real \<Rightarrow> real" where
  "lerp_quantile vs q =
     (let s = sort vs;
          n = length s;
          pos = q * real (n - 1);
          lo = nat \<lfloor>pos\<rfloor>;
          hi = min (lo + 1) (n - 1)
      in s ! lo + (s ! hi - s ! lo) * (pos - real lo))"

definition series_quantile :: "real list \<Rightarrow> real \<Rightarrow> py_error + real" where
  "series_quantile vs q =
     (if \<not> (0 \<le> q \<and> q \<le> 1) then Inl ValueError
      else if vs = [] then Inl EmptySeries
      else Inr (lerp_quantile vs q))"

definition filter_by_engagement :: "item list \<Rightarrow> real \<Rightarrow> py_error + item list" where
  "filter_by_engagement data min_percentile =
     (if data = [] then Inr []
      else
        let engagement_values = map engagement_value data
        in case (if engagement_values \<noteq> []
                 then series_quantile engagement_values min_percentile
                 else Inr 0) of
             Inl e \<Rightarrow> Inl e
           | Inr threshold \<Rightarrow>
               Inr (map fst (filter (\<lambda>(item, v). v \<ge> threshold)
                                    (zip data engagement_values))))"

subsection \<open>Topic grouping\<close>

text \<open>
  \<^verbatim>\<open>group_by_topic\<close> tells items apart by \<^verbatim>\<open>id(item)\<close>, the identity of the object and not
  its value. The input list is therefore a list of object addresses into a heap; two
  addresses may hold equal items, and one address may occur twice in the list.
  \<^verbatim>\<open>topics[k] = v\<close> on a dict is \<open>AList.update\<close>: an existing key keeps its place and
  takes the new value, a new key goes last.
\<close>

type_synonym addr = nat

definition top_entities :: "(addr \<Rightarrow> item) \<Rightarrow> addr list \<Rightarrow> string list" where
  "top_entities heap data =
     (let all_entities = concat (map (\<lambda>a. get_entities (heap a)) data);
          entity_counter = Counter all_entities
      in map fst (filter (\<lambda>(entity, cnt). cnt > 1) (most_common 10 entity_counter)))"

definition group_by_topic :: "(addr \<Rightarrow> item) \<Rightarrow> addr list \<Rightarrow> (string \<times> addr list) list" where
  "group_by_topic heap data =
     (let topics0 = fold (\<lambda>entity tps.
                       AList.update entity
                         (filter (\<lambda>a. entity \<in> set (get_entities (heap a))) data) tps)
                     (top_entities heap data) [];
          classified_items = set (concat (map snd topics0))
      in AList.update ''outros'' (filter (\<lambda>a. a \<notin> classified_items) data) topics0)"

subsection \<open>Trend extraction\<close>

definition extract_trending_topics :: "runtime \<Rightarrow> item list \<Rightarrow> nat \<Rightarrow> trend_candidate list" where
  "extract_trending_topics rt data top_n =
     (let all_entities = concat (map get_entities data);
          all_hashtags = concat (map get_hashtags data);
          entity_counter = Counter all_entities;
          hashtag_counter = Counter all_hashtags;
          combined_counter = counter_add entity_counter hashtag_counter
      in map (\<lambda>(tp, cnt).
                let related_items =
                      filter (\<lambda>i. tp \<in> set (get_entities i) \<or> tp \<in> set (get_hashtags i)) data;
                    avg = (if related_items \<noteq> []
                           then sum_list (map engagement_value related_items)
                                / real (length related_items)
                           else 0)
                in \<lparr>topic = tp, count = cnt, avg_engagement = avg,
                    sources = set_order rt (map (get_source []) related_items),
                    related_items_count = length related_items\<rparr>)
             (most_common top_n combined_counter))"

subsection \<open>Key facts\<close>

text \<open>\<^verbatim>\<open>a in b\<close> on strings is the contiguous-sublist test \<open>sublist a b\<close>.\<close>

definition mentions_topic :: "runtime \<Rightarrow> string \<Rightarrow> string \<Rightarrow> bool" where
  "mentions_topic rt tp s = sublist (str_lower rt tp) (str_lower rt s)"

definition topic_sentences :: "runtime \<Rightarrow> item list \<Rightarrow> string \<Rightarrow> string list" where
  "topic_sentences rt data tp =
     (let related_items =
            filter (\<lambda>i. tp \<in> set (get_entities i) \<or> tp \<in> set (get_hashtags i)
                        \<or> mentions_topic rt tp (get_content i)) data
      in concat (map (\<lambda>i. let c = get_content i
                           in if c \<noteq> [] then filter (mentions_topic rt tp) (sent_tokenize rt c)
                              else [])
                     related_items))"

definition extract_key_facts :: "runtime \<Rightarrow> item list \<Rightarrow> string \<Rightarrow> string list" where
  "extract_key_facts rt data tp =
     (let sentences = topic_sentences rt data tp;
          unique_sentences = set_order rt sentences;
          filtered_sentences = filter (\<lambda>s. length (str_split rt s) > 5) unique_sentences;
          max_facts = min (length filtered_sentences) 10
      in take max_facts filtered_sentences)"

subsection \<open>Consolidation\<close>

text \<open>
  \<^verbatim>\<open>consolidate_data\<close>: every loaded element is a fresh object, so the heap handed to
  \<^verbatim>\<open>group_by_topic\<close> stores the filtered items at the addresses \<open>0, 1, ...\<close>.
  The defaults are \<^verbatim>\<open>min_percentile = 0.3\<close> and \<^verbatim>\<open>top_n = 5\<close>.
\<close>

definition consolidate_data ::
  "runtime \<Rightarrow> real \<Rightarrow> (string \<Rightarrow> file_state) \<Rightarrow> string list \<Rightarrow> py_error + consolidated_data" where
  "consolidate_data rt min_relevance_score fs data_files =
     (let all_data = concat (map (load_data fs) data_files);
          relevant = filter_by_relevance min_relevance_score all_data
      in case filter_by_engagement relevant (3 / 10) of
           Inl e \<Rightarrow> Inl e
         | Inr filtered_data \<Rightarrow>
             let grouped_data =
                   map (\<lambda>(k, as). (k, map (\<lambda>a. filtered_data ! a) as))
                       (group_by_topic (\<lambda>a. filtered_data ! a) [0 ..< length filtered_data]);
                 trending =
                   map (\<lambda>t. trend_candidate.extend t
                               (trend_topic.fields (extract_key_facts rt filtered_data (topic t))))
                       (extract_trending_topics rt filtered_data 5)
             in Inr \<lparr>c_total_items = length all_data,
                     filtered_items = length filtered_data,
                     topics = grouped_data,
                     trending_topics = trending,
                     processed_at = now_processed rt\<rparr>)"

section \<open>The insight generator\<close>

definition score :: "trend_topic \<Rightarrow> real" where
  "score t = real (count t) * (6 / 10) + avg_engagement t * (4 / 10)"

definition status_of :: "real \<Rightarrow> real \<Rightarrow> level" where
  "status_of trending_threshold s =
     (if s > trending_threshold then Alta
      else if s > trending_threshold / 2 then Media
      else Baixa)"

definition insight_of :: "real \<Rightarrow> trend_topic \<Rightarrow> topic_insight" where
  "insight_of trending_threshold t =
     \<lparr>ins_topic = topic t, mentions = count t, ins_engagement = avg_engagement t,
      trend_score = score t, trend_status = status_of trending_threshold (score t),
      ins_sources = sources t, ins_key_facts = key_facts t\<rparr>"

definition generate_topic_insights :: "real \<Rightarrow> consolidated_data \<Rightarrow> topic_insight list" where
  "generate_topic_insights trending_threshold data =
     sort_desc trend_score (map (insight_of trending_threshold) (trending_topics data))"

definition generate_source_distribution :: "consolidated_data \<Rightarrow> (string \<times> source_share) list" where
  "generate_source_distribution data =
     (let all_items = concat (map snd (topics data));
          source_counts = Counter (map (get_source ''Desconhecido'') all_items);
          total = length all_items
      in map (\<lambda>(src, cnt).
                (src, \<lparr>share_count = cnt,
                       percentage = (if total > 0 then real cnt / real total * 100 else 0)\<rparr>))
             source_counts)"

text \<open>
  One pass of the first loop of \<^verbatim>\<open>generate_engagement_metrics\<close>: the row of the item's
  source is created on first sight, then updated.
\<close>

definition add_item_metrics ::
  "real \<Rightarrow> item \<Rightarrow> (string \<times> metrics_acc) list \<Rightarrow> (string \<times> metrics_acc) list" where
  "add_item_metrics engagement_threshold i tbl =
     (let src = get_source ''Desconhecido'' i;
          tbl1 = (if map_of tbl src = None
                  then AList.update src
                         \<lparr>total_items = 0, total_engagement = 0, m_avg_engagement = 0,
                          high_engagement_items = 0\<rparr> tbl
                  else tbl);
          v = engagement_value i
      in AList.map_entry src
           (\<lambda>m. m\<lparr>total_items := total_items m + 1,
                   total_engagement := total_engagement m + v,
                   high_engagement_items :=
                     (if v > engagement_threshold then high_engagement_items m + 1
                      else high_engagement_items m)\<rparr>)
           tbl1)"

definition engagement_by_source :: "real \<Rightarrow> item list \<Rightarrow> (string \<times> metrics_acc) list" where
  "engagement_by_source engagement_threshold all_items =
     fold (add_item_metrics engagement_threshold) all_items []"

text \<open>
  The second loop: the averages, behind the guard \<^verbatim>\<open>if metrics["total_items"] > 0\<close>.
  \<open>took_fallback\<close> records which branch ran for a row.
\<close>

definition took_fallback :: "metrics_acc \<Rightarrow> bool" where
  "took_fallback m \<longleftrightarrow> \<not> (total_items m > 0)"

definition finish_metrics :: "metrics_acc \<Rightarrow> source_metrics" where
  "finish_metrics m =
     (if total_items m > 0
      then metrics_acc.extend
             (m\<lparr>m_avg_engagement := total_engagement m / real (total_items m)\<rparr>)
             (source_metrics.fields (real (high_engagement_items m) / real (total_items m) * 100))
      else metrics_acc.extend (m\<lparr>m_avg_engagement := 0\<rparr>) (source_metrics.fields 0))"

definition generate_engagement_metrics ::
  "real \<Rightarrow> consolidated_data \<Rightarrow> (string \<times> source_metrics) list" where
  "generate_engagement_metrics engagement_threshold data =
     (let all_items = concat (map snd (topics data))
      in map (\<lambda>(src, m). (src, finish_metrics m))
             (engagement_by_source engagement_threshold all_items))"

definition generate_content_recommendations :: "real \<Rightarrow> consolidated_data \<Rightarrow> recommendation list" where
  "generate_content_recommendations trending_threshold data =
     (let high_trend_topics = filter (\<lambda>t. score t > trending_threshold) (trending_topics data);
          recommendations =
            map (\<lambda>t. \<lparr>rec_topic = topic t, rec_key_facts = key_facts t,
                       rec_text = CriarMateria (topic t),
                       priority = (if length (key_facts t) \<ge> 3 then Alta else Media)\<rparr>)
                high_trend_topics;
          medium_trend_topics =
            filter (\<lambda>t. score t > trending_threshold / 2 \<and> score t \<le> trending_threshold)
                   (trending_topics data)
      in recommendations
         @ concat (map (\<lambda>t. if length (key_facts t) \<ge> 2
                             then [\<lparr>rec_topic = topic t, rec_key_facts = key_facts t,
                                    rec_text = ConsiderarMateria (topic t),
                                    priority = Media\<rparr>]
                             else [])
                       medium_trend_topics))"

text \<open>
  \<^verbatim>\<open>generate_all_insights\<close> reads the consolidated data back from the file written by
  \<^verbatim>\<open>consolidate_data\<close>; \<open>None\<close> is a failed load (the source then returns \<^verbatim>\<open>{}\<close>).
\<close>

definition generate_all_insights ::
  "runtime \<Rightarrow> real \<Rightarrow> real \<Rightarrow> consolidated_data option \<Rightarrow> insight_bundle option" where
  "generate_all_insights rt engagement_threshold trending_threshold loaded =
     (case loaded of
        None \<Rightarrow> None
      | Some data \<Rightarrow>
          Some \<lparr>source_distribution = generate_source_distribution data,
                topic_insights = generate_topic_insights trending_threshold data,
                engagement_metrics = generate_engagement_metrics engagement_threshold data,
                content_recommendations =
                  generate_content_recommendations trending_threshold data,
                generated_at = now_generated rt\<rparr>)"

section \<open>Specification-level notions and example data\<close>


text \<open>
  The distinct elements of a list in the order of their first occurrence: the key order
  of a counter built from the list.
\<close>

definition first_seen :: "'a list \<Rightarrow> 'a list" where
  "first_seen xs = rev (remdups (rev xs))"

text \<open>Invariant of the per-source table while it is being filled.\<close>

definition rows_ok :: "(string \<times> metrics_acc) list \<Rightarrow> bool" where
  "rows_ok tbl \<longleftrightarrow>
     distinct (map fst tbl) \<and> (\<forall>s m. map_of tbl s = Some m \<longrightarrow> total_items m \<ge> 1)"

definition items_of :: "(string \<times> metrics_acc) list \<Rightarrow> string \<Rightarrow> nat" where
  "items_of tbl s = (case map_of tbl s of None \<Rightarrow> 0 | Some m \<Rightarrow> total_items m)"

text \<open>Shorthands for concrete inputs.\<close>

definition tt :: "string \<Rightarrow> nat \<Rightarrow> real \<Rightarrow> string list \<Rightarrow> trend_topic" where
  "tt nm c e kf = \<lparr>topic = nm, count = c, avg_engagement = e, sources = [],
     related_items_count = 0, key_facts = kf\<rparr>"

definition cd :: "(string \<times> item list) list \<Rightarrow> trend_topic list \<Rightarrow> consolidated_data" where
  "cd tps ts = \<lparr>c_total_items = 0, filtered_items = 0, topics = tps, trending_topics = ts,
     processed_at = []\<rparr>"

definition it :: "string \<Rightarrow> string list \<Rightarrow> string list \<Rightarrow> real \<Rightarrow> item" where
  "it src es hs e = \<lparr>source = Some src, content = None, text_field = None, caption = None,
     entities = Some es, hashtags = Some hs, relevance_score = Some 1,
     engagement = Some (EngagementDict (Some e) None)\<rparr>"



definition metrics_example :: consolidated_data where
  "metrics_example =
     cd [(''Lula'', [it ''G1'' [''Lula''] [] (8/10), it ''Twitter'' [''Lula''] [] (2/10)]),
         (''outros'', [it ''G1'' [] [] (6/10)])] []"

definition eng_example :: "item list" where
  "eng_example = [it ''G1'' [''Lula''] [] (2/10), it ''G1'' [''Lula'', ''Dilma''] [] (8/10),
                  it ''Twitter'' [''Dilma''] [] (5/10), it ''Instagram'' [] [] (1/10)]"

text \<open>
  All entity and hashtag tokens of a list of items, in scan order, and the merged
  frequency of a token.
\<close>

definition all_entities :: "item list \<Rightarrow> string list" where
  "all_entities data = concat (map get_entities data)"
definition all_hashtags :: "item list \<Rightarrow> string list" where
  "all_hashtags data = concat (map get_hashtags data)"
definition merged_count :: "item list \<Rightarrow> string \<Rightarrow> nat" where
  "merged_count data k = count_list (all_entities data) k + count_list (all_hashtags data) k"

text \<open>An example runtime: identity for lower-casing, splitting at blanks and at full stops.\<close>

definition split_on :: "char \<Rightarrow> string \<Rightarrow> string list" where
  "split_on c s = foldr (\<lambda>x acc. if x = c then [] # acc else (x # hd acc) # tl acc) s [[]]"

definition rt_example :: runtime where
  "rt_example = \<lparr>str_lower = (\<lambda>s. s),
                  str_split = (\<lambda>s. filter (\<lambda>w. w \<noteq> []) (split_on CHR '' '' s)),
                  sent_tokenize = (\<lambda>s. filter (\<lambda>w. w \<noteq> []) (split_on CHR ''.'' s)),
                  set_order = remdups,
                  now_processed = ''t1'', now_generated = ''t2''\<rparr>"

definition trend_example :: "item list" where
  "trend_example = [it ''G1'' [''Lula'', ''Dilma''] [''Lula''] (2/10),
                    it ''Twitter'' [''Lula''] [''Bolsonaro''] (8/10)]"





definition heap_example :: "addr \<Rightarrow> item" where
  "heap_example a = eng_example ! a"


text \<open>
  The qualifying sentences of a topic: sentences of related items that mention the
  topic and have more than five words.
\<close>

definition qualifying :: "runtime \<Rightarrow> item list \<Rightarrow> string \<Rightarrow> string set" where
  "qualifying rt data tp = {s \<in> set (topic_sentences rt data tp). 5 < length (str_split rt s)}"

definition rt_reversed :: runtime where
  "rt_reversed = rt_example\<lparr>set_order := (\<lambda>xs. rev (remdups xs))\<rparr>"

definition fact_item :: "string \<Rightarrow> item" where
  "fact_item c = \<lparr>source = Some ''G1'', content = Some c, text_field = None, caption = None,
     entities = Some [''Lula''], hashtags = None, relevance_score = Some 1, engagement = None\<rparr>"

definition facts_example :: "item list" where
  "facts_example = map fact_item
     [''Lula a b c d 01'', ''Lula a b c d 02'', ''Lula a b c d 03'', ''Lula a b c d 04'',
      ''Lula a b c d 05'', ''Lula a b c d 06'', ''Lula a b c d 07'', ''Lula a b c d 08'',
      ''Lula a b c d 09'', ''Lula a b c d 10'', ''Lula a b c d 11'', ''Lula a b c d 12'']"

definition fs_example :: "string \<Rightarrow> file_state" where
  "fs_example p = (if p = ''raw/g1.json'' then Parsed eng_example
                   else if p = ''raw/bad.json'' then Corrupt else Missing)"

section \<open>The pipeline\<close>

text \<open>
  \<^verbatim>\<open>main.py\<close> runs the data processor and then the insight generator, which reads back
  the consolidated file just written; writing and re-reading JSON is taken to give back
  the same data. Two bundles serialise to the same bytes exactly when they are equal,
  so runs are compared as values.
\<close>

definition run_pipeline ::
  "runtime \<Rightarrow> real \<Rightarrow> real \<Rightarrow> real \<Rightarrow> (string \<Rightarrow> file_state) \<Rightarrow> string list
     \<Rightarrow> py_error + (consolidated_data \<times> insight_bundle option)" where
  "run_pipeline rt min_relevance_score engagement_threshold trending_threshold fs data_files =
     (case consolidate_data rt min_relevance_score fs data_files of
        Inl e \<Rightarrow> Inl e
      | Inr c \<Rightarrow> Inr (c, generate_all_insights rt engagement_threshold trending_threshold (Some c)))"

text \<open>
  The part of the output that neither the clock nor the iteration order of a set can
  touch: everything but the two timestamps, with each list of sources read as a set and
  each list of key facts read by its length.
\<close>

definition stable_topic :: "trend_topic \<Rightarrow> string \<times> nat \<times> real \<times> string set \<times> nat \<times> nat" where
  "stable_topic t = (topic t, count t, avg_engagement t, set (sources t), related_items_count t,
                     length (key_facts t))"

definition stable_insight ::
  "topic_insight \<Rightarrow> real \<times> string \<times> nat \<times> real \<times> level \<times> string set \<times> nat" where
  "stable_insight i = (trend_score i, ins_topic i, mentions i, ins_engagement i, trend_status i,
                       set (ins_sources i), length (ins_key_facts i))"

definition stable_recommendation :: "recommendation \<Rightarrow> string \<times> rationale \<times> level \<times> nat" where
  "stable_recommendation r = (rec_topic r, rec_text r, priority r, length (rec_key_facts r))"

definition stable_consolidated ::
  "consolidated_data \<Rightarrow> nat \<times> nat \<times> (string \<times> item list) list
     \<times> (string \<times> nat \<times> real \<times> string set \<times> nat \<times> nat) list" where
  "stable_consolidated c =
     (c_total_items c, filtered_items c, topics c, map stable_topic (trending_topics c))"

definition stable_bundle ::
  "insight_bundle \<Rightarrow> (string \<times> source_share) list
     \<times> (real \<times> string \<times> nat \<times> real \<times> level \<times> string set \<times> nat) list
     \<times> (string \<times> source_metrics) list \<times> (string \<times> rationale \<times> level \<times> nat) list" where
  "stable_bundle b =
     (source_distribution b, map stable_insight (topic_insights b), engagement_metrics b,
      map stable_recommendation (content_recommendations b))"

definition rt_later :: runtime where
  "rt_later = rt_example\<lparr>now_processed := ''t3'', now_generated := ''t4''\<rparr>"

text \<open>The filtered items of a run: they do not depend on the runtime.\<close>

definition filtered_of :: "real \<Rightarrow> (string \<Rightarrow> file_state) \<Rightarrow> string list \<Rightarrow> item list" where
  "filtered_of m fs files =
     (let relevant = filter_by_relevance m (concat (map (load_data fs) files))
      in if relevant = [] then []
         else filter (\<lambda>i. engagement_value i \<ge> lerp_quantile (map engagement_value relevant) (3 / 10))
                relevant)"

definition with_key_facts :: "runtime \<Rightarrow> item list \<Rightarrow> trend_candidate \<Rightarrow> trend_topic" where
  "with_key_facts rt data t =
     trend_candidate.extend t (trend_topic.fields (extract_key_facts rt data (topic t)))"

text \<open>The insight and recommendation computations, on the stable part of the topics.\<close>

definition stable_score :: "string \<times> nat \<times> real \<times> string set \<times> nat \<times> nat \<Rightarrow> real" where
  "stable_score p = (case p of (tp, c, a, S, r, l) \<Rightarrow> real c * (6 / 10) + a * (4 / 10))"

definition insight_of_stable ::
  "real \<Rightarrow> string \<times> nat \<times> real \<times> string set \<times> nat \<times> nat
     \<Rightarrow> real \<times> string \<times> nat \<times> real \<times> level \<times> string set \<times> nat" where
  "insight_of_stable thr p =
     (case p of (tp, c, a, S, r, l) \<Rightarrow>
        (stable_score p, tp, c, a, status_of thr (stable_score p), S, l))"

definition recommendations_of_stable ::
  "real \<Rightarrow> (string \<times> nat \<times> real \<times> string set \<times> nat \<times> nat) list
     \<Rightarrow> (string \<times> rationale \<times> level \<times> nat) list" where
  "recommendations_of_stable thr ps =
     map (\<lambda>(tp, c, a, S, r, l). (tp, CriarMateria tp, if l \<ge> 3 then Alta else Media, l))
         (filter (\<lambda>p. stable_score p > thr) ps)
     @ concat (map (\<lambda>(tp, c, a, S, r, l). if l \<ge> 2 then [(tp, ConsiderarMateria tp, Media, l)] else [])
                   (filter (\<lambda>p. stable_score p > thr / 2 \<and> stable_score p \<le> thr) ps))"

section \<open>Verification\<close>

subsection \<open>Topic insights\<close>


lemma sort_desc_sorted:
  fixes f :: "'a \<Rightarrow> 'b::linordered_idom"
  shows "sorted_wrt (\<lambda>a b. f a \<ge> f b) (sort_desc f xs)"
proof -
  have "sorted (map (\<lambda>x. - f x) (sort_desc f xs))"
    unfolding sort_desc_def by (rule sorted_sort_key)
  then show ?thesis by (simp add: sorted_map)
qed

lemma sort_desc_stable:
  fixes f :: "'a \<Rightarrow> 'b::linordered_idom"
  shows "filter (\<lambda>y. f y = k) (sort_desc f xs) = filter (\<lambda>y. f y = k) xs"
  using sort_key_stable [of "\<lambda>x. - f x" "- k" xs] by (simp add: sort_desc_def)




subsection \<open>Recommendations\<close>






subsection \<open>Per-source engagement metrics\<close>

lemma map_of_add_item_metrics:
  "map_of (add_item_metrics thr i tbl) =
     (map_of tbl)(get_source ''Desconhecido'' i \<mapsto>
        (let m = (case map_of tbl (get_source ''Desconhecido'' i) of
                    None \<Rightarrow> \<lparr>total_items = 0, total_engagement = 0, m_avg_engagement = 0,
                              high_engagement_items = 0\<rparr>
                  | Some m \<Rightarrow> m)
         in m\<lparr>total_items := total_items m + 1,
               total_engagement := total_engagement m + engagement_value i,
               high_engagement_items :=
                 (if engagement_value i > thr then high_engagement_items m + 1
                  else high_engagement_items m)\<rparr>))"
  by (rule ext)
     (auto simp: add_item_metrics_def Let_def map_of_map_entry update_conv' split: option.splits)

lemma distinct_add_item_metrics:
  "distinct (map fst tbl) \<Longrightarrow> distinct (map fst (add_item_metrics thr i tbl))"
  by (simp add: add_item_metrics_def Let_def distinct_map_entry distinct_update)

lemma rows_ok_add_item_metrics: "rows_ok tbl \<Longrightarrow> rows_ok (add_item_metrics thr i tbl)"
  unfolding rows_ok_def
  by (auto simp: map_of_add_item_metrics distinct_add_item_metrics Let_def split: if_splits option.splits)

lemma rows_ok_fold: "rows_ok tbl \<Longrightarrow> rows_ok (fold (add_item_metrics thr) xs tbl)"
  by (induction xs arbitrary: tbl) (simp_all add: rows_ok_add_item_metrics)

lemma items_of_add_item_metrics:
  "items_of (add_item_metrics thr i tbl) s
     = items_of tbl s + (if get_source ''Desconhecido'' i = s then 1 else 0)"
  by (simp add: items_of_def map_of_add_item_metrics Let_def split: option.splits)

lemma items_of_fold:
  "items_of (fold (add_item_metrics thr) xs tbl) s
     = items_of tbl s + length (filter (\<lambda>i. get_source ''Desconhecido'' i = s) xs)"
  by (induction xs arbitrary: tbl) (simp_all add: items_of_add_item_metrics)

lemma keys_add_item_metrics:
  "fst ` set (add_item_metrics thr i tbl) = insert (get_source ''Desconhecido'' i) (fst ` set tbl)"
proof (cases "map_of tbl (get_source ''Desconhecido'' i)")
  case None
  then show ?thesis by (simp add: add_item_metrics_def Let_def dom_map_entry dom_update)
next
  case (Some m)
  then have "get_source ''Desconhecido'' i \<in> fst ` set tbl"
    by (metis map_of_eq_None_iff option.distinct(1))
  with Some show ?thesis by (auto simp: add_item_metrics_def Let_def dom_map_entry)
qed

lemma keys_fold:
  "fst ` set (fold (add_item_metrics thr) xs tbl)
     = get_source ''Desconhecido'' ` set xs \<union> fst ` set tbl"
  by (induction xs arbitrary: tbl) (simp_all add: keys_add_item_metrics)

lemma rows_ok_engagement_by_source: "rows_ok (engagement_by_source thr xs)"
  unfolding engagement_by_source_def by (rule rows_ok_fold) (simp add: rows_ok_def)

lemma engagement_by_source_row:
  assumes "(s, m) \<in> set (engagement_by_source thr xs)"
  shows "total_items m \<ge> 1"
    and "total_items m = length (filter (\<lambda>i. get_source ''Desconhecido'' i = s) xs)"
proof -
  have ok: "rows_ok (engagement_by_source thr xs)" by (rule rows_ok_engagement_by_source)
  then have mo: "map_of (engagement_by_source thr xs) s = Some m"
    using assms by (simp add: rows_ok_def)
  with ok show "total_items m \<ge> 1" by (auto simp: rows_ok_def)
  have "items_of (engagement_by_source thr xs) s
          = length (filter (\<lambda>i. get_source ''Desconhecido'' i = s) xs)"
    using items_of_fold [of thr xs "[]" s]
    by (simp add: engagement_by_source_def items_of_def)
  with mo show "total_items m = length (filter (\<lambda>i. get_source ''Desconhecido'' i = s) xs)"
    by (simp add: items_of_def)
qed

text \<open>
  C9. Every row of the per-source table has \<open>total_items \<ge> 1\<close>, namely the number of
  items of that source, so the second loop never takes its \<open>total_items = 0\<close> branch; the
  sources of the result are exactly the sources of the items, and every emitted row
  holds the two quotients over a non-zero \<open>total_items\<close>.
\<close>

theorem engagement_rows_have_items:
  "(\<forall>(s, m) \<in> set (engagement_by_source thr (concat (map snd (topics data)))).
       total_items m \<ge> 1 \<and> \<not> took_fallback m
       \<and> total_items m
           = length (filter (\<lambda>i. get_source ''Desconhecido'' i = s) (concat (map snd (topics data)))))
   \<and> fst ` set (generate_engagement_metrics thr data)
       = get_source ''Desconhecido'' ` set (concat (map snd (topics data)))
   \<and> (\<forall>(s, r) \<in> set (generate_engagement_metrics thr data).
         total_items r \<ge> 1
         \<and> m_avg_engagement r = total_engagement r / real (total_items r)
         \<and> high_engagement_percentage r
             = real (high_engagement_items r) / real (total_items r) * 100)"
proof (intro conjI)
  show "\<forall>(s, m) \<in> set (engagement_by_source thr (concat (map snd (topics data)))).
       total_items m \<ge> 1 \<and> \<not> took_fallback m
       \<and> total_items m
           = length (filter (\<lambda>i. get_source ''Desconhecido'' i = s) (concat (map snd (topics data))))"
    using engagement_by_source_row by (fastforce simp: took_fallback_def)
  show "fst ` set (generate_engagement_metrics thr data)
       = get_source ''Desconhecido'' ` set (concat (map snd (topics data)))"
  proof -
    have "fst ` set (generate_engagement_metrics thr data)
            = fst ` set (engagement_by_source thr (concat (map snd (topics data))))"
      by (force simp: generate_engagement_metrics_def)
    then show ?thesis
      unfolding engagement_by_source_def by (simp add: keys_fold)
  qed
  show "\<forall>(s, r) \<in> set (generate_engagement_metrics thr data).
         total_items r \<ge> 1
         \<and> m_avg_engagement r = total_engagement r / real (total_items r)
         \<and> high_engagement_percentage r
             = real (high_engagement_items r) / real (total_items r) * 100"
  proof (clarify)
    fix s r assume "(s, r) \<in> set (generate_engagement_metrics thr data)"
    then obtain m where m: "(s, m) \<in> set (engagement_by_source thr (concat (map snd (topics data))))"
      and r: "r = finish_metrics m"
      by (auto simp: generate_engagement_metrics_def)
    from m have "total_items m \<ge> 1" by (rule engagement_by_source_row)
    with r show "total_items r \<ge> 1
         \<and> m_avg_engagement r = total_engagement r / real (total_items r)
         \<and> high_engagement_percentage r
             = real (high_engagement_items r) / real (total_items r) * 100"
      by (simp add: finish_metrics_def metrics_acc.defs source_metrics.defs)
  qed
qed

theorem engagement_rows_witness:
  "map (\<lambda>(s, r). (s, total_items r, m_avg_engagement r, high_engagement_percentage r))
       (generate_engagement_metrics (1/2) metrics_example)
   = [(''G1'', 2, 7/10, 100), (''Twitter'', 1, 2/10, 0)]"
  using engagement_rows_have_items [of "1/2" metrics_example]
  by (simp add: generate_engagement_metrics_def engagement_by_source_def add_item_metrics_def
        finish_metrics_def metrics_example_def cd_def it_def get_source_def engagement_value_def
        metrics_acc.defs source_metrics.defs)

subsection \<open>Engagement filter\<close>





lemma kept_items:
  "map fst (filter (\<lambda>(item, v). v \<ge> th) (zip xs (map f xs))) = filter (\<lambda>i. f i \<ge> th) xs"
  by (induction xs) simp_all

lemma filter_by_engagement_returns:
  assumes "0 \<le> p" "p \<le> 1"
  shows "filter_by_engagement data p
           = Inr (if data = [] then []
                  else filter (\<lambda>i. engagement_value i \<ge> lerp_quantile (map engagement_value data) p) data)"
  using assms by (simp add: filter_by_engagement_def series_quantile_def kept_items)







subsection \<open>Counters and trend extraction\<close>

lemma first_seen_snoc:
  "first_seen (xs @ [x]) = (if x \<in> set xs then first_seen xs else first_seen xs @ [x])"
  by (simp add: first_seen_def)

lemma set_first_seen [simp]: "set (first_seen xs) = set xs"
  by (simp add: first_seen_def)

lemma distinct_first_seen [simp]: "distinct (first_seen xs)"
  by (simp add: first_seen_def)

lemma remdups_append_filter:
  "remdups (as @ bs) = filter (\<lambda>y. y \<notin> set bs) (remdups as) @ remdups bs"
  by (induction as) auto

lemma first_seen_append:
  "first_seen (xs @ ys) = first_seen xs @ filter (\<lambda>y. y \<notin> set xs) (first_seen ys)"
proof -
  have "remdups (rev ys @ rev xs) = filter (\<lambda>y. y \<notin> set xs) (remdups (rev ys)) @ remdups (rev xs)"
    using remdups_append_filter [of "rev ys" "rev xs"] by simp
  then show ?thesis by (simp add: first_seen_def rev_filter)
qed

lemma count_list_pos: "x \<in> set xs \<Longrightarrow> 0 < count_list xs x"
  using count_list_0_iff [of xs x] by simp

lemma Counter_snoc: "Counter (xs @ [x]) = counter_incr x (Counter xs)"
  by (simp add: Counter_def)

lemma counter_incr_table:
  "distinct ks \<Longrightarrow>
   counter_incr x (map (\<lambda>k. (k, f k)) ks)
     = (if x \<in> set ks then map (\<lambda>k. (k, if k = x then Suc (f k) else f k)) ks
        else map (\<lambda>k. (k, f k)) ks @ [(x, 1)])"
  by (induction ks) auto

lemma Counter_table: "Counter xs = map (\<lambda>k. (k, count_list xs k)) (first_seen xs)"
proof (induction xs rule: rev_induct)
  case Nil
  show ?case by (simp add: Counter_def first_seen_def)
next
  case (snoc x xs)
  show ?case
    by (auto simp: Counter_snoc snoc counter_incr_table first_seen_snoc)
qed

lemma counter_get_table:
  "counter_get (map (\<lambda>k. (k, f k)) ks) k = (if k \<in> set ks then f k else 0)"
  by (induction ks) (auto simp: counter_get_def)

lemma counter_add_Counter:
  "counter_add (Counter es) (Counter hs)
     = map (\<lambda>k. (k, count_list es k + count_list hs k)) (first_seen (es @ hs))"
proof -
  note pos = count_list_pos
  have 1: "filter (\<lambda>(k, c). 0 < c)
             (map (\<lambda>(k, c). (k, c + counter_get (Counter hs) k)) (Counter es))
           = map (\<lambda>k. (k, count_list es k + count_list hs k)) (first_seen es)"
    unfolding Counter_table
    by (auto simp: filter_map o_def counter_get_table pos intro!: map_cong)
  have 2: "filter (\<lambda>(k, c). k \<notin> set (map fst (Counter es)) \<and> 0 < c) (Counter hs)
           = map (\<lambda>k. (k, count_list es k + count_list hs k))
               (filter (\<lambda>y. y \<notin> set es) (first_seen hs))"
  proof -
    have k: "set (map fst (Counter es)) = set es"
      by (simp add: Counter_table o_def)
    have "filter (\<lambda>(k, c). k \<notin> set es \<and> 0 < c) (map (\<lambda>k. (k, count_list hs k)) (first_seen hs))
           = map (\<lambda>k. (k, count_list hs k)) (filter (\<lambda>y. y \<notin> set es) (first_seen hs))"
      by (auto simp: filter_map o_def count_list_pos intro!: filter_cong arg_cong [where f = "map _"])
    also have "\<dots> = map (\<lambda>k. (k, count_list es k + count_list hs k))
               (filter (\<lambda>y. y \<notin> set es) (first_seen hs))"
      by (rule map_cong) auto
    finally show ?thesis unfolding k unfolding Counter_table .
  qed
  show ?thesis
    unfolding counter_add_def 1 2 by (simp add: first_seen_append)
qed

lemma insort_key_map:
  "insort_key f (g x) (map g ys) = map g (insort_key (\<lambda>y. f (g y)) x ys)"
  by (induction ys) simp_all

lemma sort_key_map: "sort_key f (map g xs) = map g (sort_key (\<lambda>y. f (g y)) xs)"
  by (induction xs) (simp_all add: insort_key_map)

lemma most_common_table:
  "most_common n (map (\<lambda>k. (k, f k)) ks)
     = map (\<lambda>k. (k, f k)) (take n (sort_desc (\<lambda>k. int (f k)) ks))"
  by (simp add: most_common_def sort_desc_def sort_key_map take_map)

lemma top_sorted:
  fixes f :: "'a \<Rightarrow> 'b::linordered_idom"
  shows "sorted_wrt (\<lambda>a b. f a \<ge> f b) (take n (sort_desc f xs))"
  using sort_desc_sorted [of f xs] by (rule sorted_wrt_take)

lemma top_ties:
  fixes f :: "'a \<Rightarrow> 'b::linordered_idom"
  shows "prefix (filter (\<lambda>y. f y = k) (take n (sort_desc f xs))) (filter (\<lambda>y. f y = k) xs)"
  using filter_mono_prefix [OF take_is_prefix, of "\<lambda>y. f y = k" n "sort_desc f xs"]
  by (simp add: sort_desc_stable)

lemma top_best:
  fixes f :: "'a \<Rightarrow> 'b::linordered_idom"
  assumes "x \<in> set xs" "x \<notin> set (take n (sort_desc f xs))" "y \<in> set (take n (sort_desc f xs))"
  shows "f x \<le> f y"
proof -
  let ?ys = "sort_desc f xs"
  have "x \<in> set ?ys" using assms(1) by (simp add: sort_desc_def)
  then have "x \<in> set (take n ?ys) \<union> set (drop n ?ys)"
    by (metis append_take_drop_id set_append)
  with assms(2) have x: "x \<in> set (drop n ?ys)" by simp
  have "sorted_wrt (\<lambda>a b. f a \<ge> f b) (take n ?ys @ drop n ?ys)"
    using sort_desc_sorted [of f xs] by simp
  then show ?thesis using x assms(3) unfolding sorted_wrt_append by blast
qed

lemma top_missing_full:
  assumes "x \<in> set xs" "x \<notin> set (take n (sort_desc f xs))"
  shows "length (take n (sort_desc f xs)) = n"
proof -
  have "\<not> length (sort_desc f xs) \<le> n"
    using assms by (auto simp: sort_desc_def)
  then show ?thesis by simp
qed

lemma trending_topic_counts:
  "map (\<lambda>t. (topic t, count t)) (extract_trending_topics rt data n)
     = map (\<lambda>k. (k, merged_count data k))
         (take n (sort_desc (\<lambda>k. int (merged_count data k))
                    (first_seen (all_entities data @ all_hashtags data))))"
proof -
  have "map (\<lambda>t. (topic t, count t)) (extract_trending_topics rt data n)
          = most_common n (counter_add (Counter (all_entities data)) (Counter (all_hashtags data)))"
    by (simp add: extract_trending_topics_def Let_def o_def split_def all_entities_def all_hashtags_def)
  also have "\<dots> = map (\<lambda>k. (k, merged_count data k))
         (take n (sort_desc (\<lambda>k. int (merged_count data k))
                    (first_seen (all_entities data @ all_hashtags data))))"
    unfolding counter_add_Counter
    using most_common_table [of n "merged_count data"]
    by (simp add: merged_count_def [abs_def])
  finally show ?thesis .
qed

lemma trending_topic_names:
  "map topic (extract_trending_topics rt data n)
     = take n (sort_desc (\<lambda>k. int (merged_count data k))
                    (first_seen (all_entities data @ all_hashtags data)))"
proof -
  have "map topic (extract_trending_topics rt data n)
          = map fst (map (\<lambda>t. (topic t, count t)) (extract_trending_topics rt data n))"
    by (simp add: o_def)
  also have "\<dots> = take n (sort_desc (\<lambda>k. int (merged_count data k))
                    (first_seen (all_entities data @ all_hashtags data)))"
    unfolding trending_topic_counts by (simp add: o_def)
  finally show ?thesis .
qed

lemma trending_topic_count:
  assumes "t \<in> set (extract_trending_topics rt data n)"
  shows "count t = merged_count data (topic t)"
proof -
  have "(topic t, count t) \<in> set (map (\<lambda>t. (topic t, count t)) (extract_trending_topics rt data n))"
    using assms by force
  then show ?thesis unfolding trending_topic_counts by auto
qed

text \<open>
  C6. Trend extraction merges the entity table and the hashtag table by adding the
  counts of equal keys; the keys of the merged table stand in first-seen order (over the
  entities followed by the hashtags). The candidates are the \<open>top_n\<close> keys by merged
  count: descending, keys of equal count in first-seen order, nothing left out that has
  a larger count than a candidate. For entities Lula, Dilma, Lula and hashtags Lula,
  Bolsonaro the merged counts are 3, 1, 1 and the two top candidates are Lula, Dilma.
\<close>

theorem trend_extraction_merges_tables:
  "counter_add (Counter (all_entities data)) (Counter (all_hashtags data))
     = map (\<lambda>k. (k, merged_count data k)) (first_seen (all_entities data @ all_hashtags data))
   \<and> map topic (extract_trending_topics rt data n)
       = take n (sort_desc (\<lambda>k. int (merged_count data k))
                   (first_seen (all_entities data @ all_hashtags data)))
   \<and> (\<forall>t \<in> set (extract_trending_topics rt data n). count t = merged_count data (topic t))
   \<and> sorted_wrt (\<lambda>a b. count a \<ge> count b) (extract_trending_topics rt data n)
   \<and> (\<forall>m. prefix (filter (\<lambda>k. merged_count data k = m)
                       (map topic (extract_trending_topics rt data n)))
                   (filter (\<lambda>k. merged_count data k = m)
                       (first_seen (all_entities data @ all_hashtags data))))
   \<and> (\<forall>k \<in> set (all_entities data @ all_hashtags data).
         k \<notin> set (map topic (extract_trending_topics rt data n)) \<longrightarrow>
           length (extract_trending_topics rt data n) = n
           \<and> (\<forall>t \<in> set (extract_trending_topics rt data n). merged_count data k \<le> count t))
   \<and> counter_add (Counter [''Lula'', ''Dilma'', ''Lula'']) (Counter [''Lula'', ''Bolsonaro''])
       = [(''Lula'', 3), (''Dilma'', 1), (''Bolsonaro'', 1)]
   \<and> map fst (most_common 2
         (counter_add (Counter [''Lula'', ''Dilma'', ''Lula'']) (Counter [''Lula'', ''Bolsonaro''])))
       = [''Lula'', ''Dilma'']"
proof -
  let ?keys = "first_seen (all_entities data @ all_hashtags data)"
  let ?f = "\<lambda>k. int (merged_count data k)"
  let ?out = "extract_trending_topics rt data n"
  note names = trending_topic_names [of rt data n]
  have tbl: "counter_add (Counter (all_entities data)) (Counter (all_hashtags data))
     = map (\<lambda>k. (k, merged_count data k)) ?keys"
    unfolding counter_add_Counter by (simp add: merged_count_def)
  have cnt: "\<forall>t \<in> set ?out. count t = merged_count data (topic t)"
    using trending_topic_count by blast
  have srt: "sorted_wrt (\<lambda>a b. count a \<ge> count b) ?out"
  proof -
    have "sorted_wrt (\<lambda>a b. ?f a \<ge> ?f b) (map topic ?out)"
      unfolding names by (rule top_sorted)
    then have "sorted_wrt (\<lambda>a b. merged_count data (topic a) \<ge> merged_count data (topic b)) ?out"
      by (simp add: sorted_wrt_map)
    then show ?thesis
      using cnt by (auto elim!: sorted_wrt_mono_rel [rotated])
  qed
  have ties: "\<forall>m. prefix (filter (\<lambda>k. merged_count data k = m) (map topic ?out))
                          (filter (\<lambda>k. merged_count data k = m) ?keys)"
  proof
    fix m
    show "prefix (filter (\<lambda>k. merged_count data k = m) (map topic ?out))
                 (filter (\<lambda>k. merged_count data k = m) ?keys)"
      unfolding names using top_ties [of ?f "int m" n ?keys] by simp
  qed
  have best: "\<forall>k \<in> set (all_entities data @ all_hashtags data).
         k \<notin> set (map topic ?out) \<longrightarrow>
           length ?out = n \<and> (\<forall>t \<in> set ?out. merged_count data k \<le> count t)"
  proof (intro ballI impI conjI)
    fix k assume k: "k \<in> set (all_entities data @ all_hashtags data)"
      and nk: "k \<notin> set (map topic ?out)"
    from k have k': "k \<in> set ?keys" by (simp only: set_first_seen)
    from nk have nk': "k \<notin> set (take n (sort_desc ?f ?keys))" unfolding names .
    have "length (map topic ?out) = n"
      unfolding names using k' nk' by (rule top_missing_full)
    then show "length ?out = n" by simp
    fix t assume t: "t \<in> set ?out"
    then have "topic t \<in> set (take n (sort_desc ?f ?keys))"
      using names by (metis imageI set_map)
    with k' nk' have "?f k \<le> ?f (topic t)" by (rule top_best)
    with cnt t show "merged_count data k \<le> count t" by simp
  qed
  have ex1: "counter_add (Counter [''Lula'', ''Dilma'', ''Lula'']) (Counter [''Lula'', ''Bolsonaro''])
       = [(''Lula'', 3), (''Dilma'', 1), (''Bolsonaro'', 1)]"
    by (simp add: counter_add_def Counter_def counter_get_def)
  have ex2: "map fst (most_common 2
         (counter_add (Counter [''Lula'', ''Dilma'', ''Lula'']) (Counter [''Lula'', ''Bolsonaro''])))
       = [''Lula'', ''Dilma'']"
    unfolding ex1 by (simp add: most_common_def sort_desc_def numeral_2_eq_2)
  show ?thesis
    by (intro conjI) (fact tbl names cnt srt ties best ex1 ex2)+
qed

theorem trend_extraction_witness:
  "all_entities trend_example = [''Lula'', ''Dilma'', ''Lula'']
   \<and> all_hashtags trend_example = [''Lula'', ''Bolsonaro'']
   \<and> map (\<lambda>t. (topic t, count t)) (extract_trending_topics rt_example trend_example 2)
       = [(''Lula'', 3), (''Dilma'', 1)]"
proof -
  have e: "all_entities trend_example = [''Lula'', ''Dilma'', ''Lula'']"
    and h: "all_hashtags trend_example = [''Lula'', ''Bolsonaro'']"
    by (simp_all add: all_entities_def all_hashtags_def trend_example_def it_def
          get_entities_def get_hashtags_def)
  have names: "map topic (extract_trending_topics rt_example trend_example 2) = [''Lula'', ''Dilma'']"
    and cnt: "\<forall>t \<in> set (extract_trending_topics rt_example trend_example 2).
               count t = merged_count trend_example (topic t)"
    using trend_extraction_merges_tables [of trend_example rt_example 2]
    by (simp_all add: e h merged_count_def first_seen_def sort_desc_def numeral_2_eq_2)
  have "map (\<lambda>t. (topic t, count t)) (extract_trending_topics rt_example trend_example 2)
          = map (\<lambda>t. (topic t, merged_count trend_example (topic t)))
              (extract_trending_topics rt_example trend_example 2)"
    using cnt by (intro map_cong) simp_all
  also have "\<dots> = map (\<lambda>k. (k, merged_count trend_example k))
                      (map topic (extract_trending_topics rt_example trend_example 2))"
    by (simp add: o_def)
  also have "\<dots> = [(''Lula'', 3), (''Dilma'', 1)]"
    unfolding names by (simp add: merged_count_def e h)
  finally show ?thesis using e h by simp
qed

subsection \<open>Topic grouping\<close>








subsection \<open>Key facts\<close>

lemma extract_key_facts_eq:
  "extract_key_facts rt data tp
     = take 10 (filter (\<lambda>s. 5 < length (str_split rt s)) (set_order rt (topic_sentences rt data tp)))"
  by (simp add: extract_key_facts_def Let_def min_def)

lemma topic_sentences_iff:
  "s \<in> set (topic_sentences rt data tp) \<longleftrightarrow>
     (\<exists>i \<in> set data.
        (tp \<in> set (get_entities i) \<or> tp \<in> set (get_hashtags i)
         \<or> mentions_topic rt tp (get_content i))
        \<and> get_content i \<noteq> []
        \<and> s \<in> set (sent_tokenize rt (get_content i))
        \<and> mentions_topic rt tp s)"
  by (auto simp: topic_sentences_def Let_def)

lemma key_facts_properties:
  assumes "set_order_ok (set_order rt)"
  shows "distinct (extract_key_facts rt data tp)"
    and "set (extract_key_facts rt data tp) \<subseteq> qualifying rt data tp"
    and "length (extract_key_facts rt data tp) = min 10 (card (qualifying rt data tp))"
    and "card (qualifying rt data tp) \<le> 10 \<Longrightarrow> set (extract_key_facts rt data tp) = qualifying rt data tp"
proof -
  let ?S = "topic_sentences rt data tp"
  let ?F = "filter (\<lambda>s. 5 < length (str_split rt s)) (set_order rt ?S)"
  have d: "distinct (set_order rt ?S)" and s: "set (set_order rt ?S) = set ?S"
    using assms by (simp_all add: set_order_ok_def)
  have dF: "distinct ?F" using d by simp
  have sF: "set ?F = qualifying rt data tp" using s by (auto simp: qualifying_def)
  have lF: "length ?F = card (qualifying rt data tp)"
    using distinct_card [OF dF] sF by simp
  show "distinct (extract_key_facts rt data tp)"
    unfolding extract_key_facts_eq using dF by simp
  show "set (extract_key_facts rt data tp) \<subseteq> qualifying rt data tp"
    unfolding extract_key_facts_eq using sF set_take_subset [of 10 ?F] by simp
  show "length (extract_key_facts rt data tp) = min 10 (card (qualifying rt data tp))"
    unfolding extract_key_facts_eq using lF by (simp add: min.commute)
  show "set (extract_key_facts rt data tp) = qualifying rt data tp"
    if "card (qualifying rt data tp) \<le> 10"
    unfolding extract_key_facts_eq using that lF sF by simp
qed

text \<open>
  C3, as amended. Whatever order the deduplicating set iterates in, key-fact extraction
  returns distinct qualifying sentences (sentences of related items that mention the
  topic case-insensitively and have more than five words), exactly
  \<open>min 10 (number of distinct qualifying sentences)\<close> of them, and all of them when there
  are at most ten. Their order, and which ten are kept out of more, is the iteration
  order of the set, not the order of first occurrence.
\<close>

theorem key_facts_distinct_qualifying_capped:
  assumes "set_order_ok (set_order rt)"
  shows "distinct (extract_key_facts rt data tp)
   \<and> set (extract_key_facts rt data tp) \<subseteq> qualifying rt data tp
   \<and> length (extract_key_facts rt data tp) = min 10 (card (qualifying rt data tp))
   \<and> (card (qualifying rt data tp) \<le> 10 \<longrightarrow> set (extract_key_facts rt data tp) = qualifying rt data tp)
   \<and> (\<forall>s. s \<in> qualifying rt data tp \<longleftrightarrow>
         5 < length (str_split rt s)
         \<and> (\<exists>i \<in> set data.
              (tp \<in> set (get_entities i) \<or> tp \<in> set (get_hashtags i)
               \<or> mentions_topic rt tp (get_content i))
              \<and> get_content i \<noteq> []
              \<and> s \<in> set (sent_tokenize rt (get_content i))
              \<and> mentions_topic rt tp s))"
proof -
  have q: "\<forall>s. s \<in> qualifying rt data tp \<longleftrightarrow>
         5 < length (str_split rt s)
         \<and> (\<exists>i \<in> set data.
              (tp \<in> set (get_entities i) \<or> tp \<in> set (get_hashtags i)
               \<or> mentions_topic rt tp (get_content i))
              \<and> get_content i \<noteq> []
              \<and> s \<in> set (sent_tokenize rt (get_content i))
              \<and> mentions_topic rt tp s)"
    unfolding qualifying_def using topic_sentences_iff [of _ rt data tp] by auto
  show ?thesis
    using key_facts_properties [OF assms, of data tp] q by (intro conjI) simp_all
qed

theorem key_facts_witness:
  "set_order_ok (set_order rt_example)
   \<and> extract_key_facts rt_example facts_example ''Lula''
       = [''Lula a b c d 01'', ''Lula a b c d 02'', ''Lula a b c d 03'', ''Lula a b c d 04'',
          ''Lula a b c d 05'', ''Lula a b c d 06'', ''Lula a b c d 07'', ''Lula a b c d 08'',
          ''Lula a b c d 09'', ''Lula a b c d 10'']"
proof -
  have ok: "set_order_ok (set_order rt_example)"
    by (simp add: rt_example_def set_order_ok_def)
  have ev: "extract_key_facts rt_example facts_example ''Lula''
       = [''Lula a b c d 01'', ''Lula a b c d 02'', ''Lula a b c d 03'', ''Lula a b c d 04'',
          ''Lula a b c d 05'', ''Lula a b c d 06'', ''Lula a b c d 07'', ''Lula a b c d 08'',
          ''Lula a b c d 09'', ''Lula a b c d 10'']"
    by code_simp
  have "length (extract_key_facts rt_example facts_example ''Lula'')
          = min 10 (card (qualifying rt_example facts_example ''Lula''))"
    by (rule key_facts_distinct_qualifying_capped
          [OF ok, of facts_example "''Lula''", THEN conjunct2, THEN conjunct2, THEN conjunct1])
  with ok ev show ?thesis by simp
qed

text \<open>
  The claim as stated fails: for an iteration order that a set may have (here the
  reverse of first occurrence), twelve qualifying sentences in source order yield the
  last ten, in reverse order.
\<close>

theorem key_facts_order_counterexample:
  "set_order_ok (set_order rt_reversed)
   \<and> topic_sentences rt_reversed facts_example ''Lula''
       = [''Lula a b c d 01'', ''Lula a b c d 02'', ''Lula a b c d 03'', ''Lula a b c d 04'',
          ''Lula a b c d 05'', ''Lula a b c d 06'', ''Lula a b c d 07'', ''Lula a b c d 08'',
          ''Lula a b c d 09'', ''Lula a b c d 10'', ''Lula a b c d 11'', ''Lula a b c d 12'']
   \<and> extract_key_facts rt_reversed facts_example ''Lula''
       = [''Lula a b c d 12'', ''Lula a b c d 11'', ''Lula a b c d 10'', ''Lula a b c d 09'',
          ''Lula a b c d 08'', ''Lula a b c d 07'', ''Lula a b c d 06'', ''Lula a b c d 05'',
          ''Lula a b c d 04'', ''Lula a b c d 03'']"
proof (intro conjI)
  show "set_order_ok (set_order rt_reversed)"
    by (simp add: rt_reversed_def rt_example_def set_order_ok_def)
  show "topic_sentences rt_reversed facts_example ''Lula''
       = [''Lula a b c d 01'', ''Lula a b c d 02'', ''Lula a b c d 03'', ''Lula a b c d 04'',
          ''Lula a b c d 05'', ''Lula a b c d 06'', ''Lula a b c d 07'', ''Lula a b c d 08'',
          ''Lula a b c d 09'', ''Lula a b c d 10'', ''Lula a b c d 11'', ''Lula a b c d 12'']"
    by code_simp
  show "extract_key_facts rt_reversed facts_example ''Lula''
       = [''Lula a b c d 12'', ''Lula a b c d 11'', ''Lula a b c d 10'', ''Lula a b c d 09'',
          ''Lula a b c d 08'', ''Lula a b c d 07'', ''Lula a b c d 06'', ''Lula a b c d 05'',
          ''Lula a b c d 04'', ''Lula a b c d 03'']"
    by code_simp
qed

subsection \<open>Empty input\<close>

lemma set_order_empty:
  assumes "set_order_ok ord"
  shows "ord [] = []"
proof -
  from assms have "set (ord []) = set []" unfolding set_order_ok_def by blast
  then show ?thesis by simp
qed

lemma group_by_topic_empty: "group_by_topic heap [] = [(''outros'', [])]"
  by (simp add: group_by_topic_def top_entities_def Counter_def most_common_def sort_desc_def)

lemma extract_trending_topics_empty: "extract_trending_topics rt [] n = []"
  by (simp add: extract_trending_topics_def Counter_def counter_add_def most_common_def sort_desc_def)

lemma load_all_failed:
  "\<forall>p \<in> set files. fs p = Missing \<or> fs p = Corrupt \<Longrightarrow> concat (map (load_data fs) files) = []"
  by (induction files) (auto simp: load_data_def read_json_def)

text \<open>
  C8, as amended. A load failure (missing or corrupt file) gives the empty list instead
  of an exception; on the empty list the relevance filter, the engagement filter, trend
  extraction and key-fact extraction return the empty list without raising, and topic
  grouping returns the mapping whose only entry is the cluster \<open>outros\<close> with no members.
  When every file fails to load, consolidation returns zero counts, that mapping and no
  trending topic.
\<close>

theorem empty_input_is_nothing_to_process:
  "(fs file_path = Missing \<or> fs file_path = Corrupt \<longrightarrow> load_data fs file_path = [])
   \<and> filter_by_relevance min_score [] = []
   \<and> filter_by_engagement [] p = Inr []
   \<and> group_by_topic heap [] = [(''outros'', [])]
   \<and> extract_trending_topics rt [] n = []
   \<and> (set_order_ok (set_order rt) \<longrightarrow> extract_key_facts rt [] tp = [])
   \<and> ((\<forall>f \<in> set files. fs f = Missing \<or> fs f = Corrupt) \<longrightarrow>
        consolidate_data rt min_score fs files
          = Inr \<lparr>c_total_items = 0, filtered_items = 0, topics = [(''outros'', [])],
                 trending_topics = [], processed_at = now_processed rt\<rparr>)"
proof (intro conjI impI)
  assume "fs file_path = Missing \<or> fs file_path = Corrupt"
  then show "load_data fs file_path = []"
    by (auto simp: load_data_def read_json_def)
next
  show "filter_by_relevance min_score [] = []" by (simp add: filter_by_relevance_def)
next
  show "filter_by_engagement [] p = Inr []" by (simp add: filter_by_engagement_def)
next
  show "group_by_topic heap [] = [(''outros'', [])]" by (rule group_by_topic_empty)
next
  show "extract_trending_topics rt [] n = []" by (rule extract_trending_topics_empty)
next
  assume "set_order_ok (set_order rt)"
  then show "extract_key_facts rt [] tp = []"
    by (simp add: extract_key_facts_def topic_sentences_def set_order_empty)
next
  assume "\<forall>f \<in> set files. fs f = Missing \<or> fs f = Corrupt"
  then have "concat (map (load_data fs) files) = []" by (rule load_all_failed)
  then show "consolidate_data rt min_score fs files
          = Inr \<lparr>c_total_items = 0, filtered_items = 0, topics = [(''outros'', [])],
                 trending_topics = [], processed_at = now_processed rt\<rparr>"
    by (simp add: consolidate_data_def filter_by_relevance_def filter_by_engagement_def
          group_by_topic_empty extract_trending_topics_empty)
qed

theorem empty_input_witness:
  "fs_example ''raw/none.json'' = Missing \<and> load_data fs_example ''raw/none.json'' = []
   \<and> fs_example ''raw/bad.json'' = Corrupt \<and> load_data fs_example ''raw/bad.json'' = []
   \<and> set_order_ok (set_order rt_example) \<and> extract_key_facts rt_example [] ''Lula'' = []
   \<and> consolidate_data rt_example (6/10) fs_example [''raw/none.json'', ''raw/bad.json'']
        = Inr \<lparr>c_total_items = 0, filtered_items = 0, topics = [(''outros'', [])],
               trending_topics = [], processed_at = ''t1''\<rparr>"
proof -
  have ok: "set_order_ok (set_order rt_example)"
    by (simp add: rt_example_def set_order_ok_def)
  have m: "fs_example ''raw/none.json'' = Missing" and c: "fs_example ''raw/bad.json'' = Corrupt"
    by (simp_all add: fs_example_def)
  have np: "now_processed rt_example = ''t1''" by (simp add: rt_example_def)
  note t1 = empty_input_is_nothing_to_process
    [of fs_example "''raw/none.json''" "6/10" "3/10" heap_example rt_example 5 "''Lula''"
        "[''raw/none.json'', ''raw/bad.json'']"]
  note t2 = empty_input_is_nothing_to_process
    [of fs_example "''raw/bad.json''" "6/10" "3/10" heap_example rt_example 5 "''Lula''" "[]"]
  note l1 = t1 [THEN conjunct1] and l2 = t2 [THEN conjunct1]
  note k = t1 [THEN conjunct2, THEN conjunct2, THEN conjunct2, THEN conjunct2, THEN conjunct2,
               THEN conjunct1]
  note a = t1 [THEN conjunct2, THEN conjunct2, THEN conjunct2, THEN conjunct2, THEN conjunct2,
               THEN conjunct2]
  have "load_data fs_example ''raw/none.json'' = []" using l1 m by simp
  moreover have "load_data fs_example ''raw/bad.json'' = []" using l2 c by simp
  moreover have "extract_key_facts rt_example [] ''Lula'' = []" using k ok by simp
  moreover have "consolidate_data rt_example (6/10) fs_example [''raw/none.json'', ''raw/bad.json'']
        = Inr \<lparr>c_total_items = 0, filtered_items = 0, topics = [(''outros'', [])],
               trending_topics = [], processed_at = ''t1''\<rparr>"
    using a m c np by simp
  ultimately show ?thesis using ok m c by simp
qed

text \<open>
  Topic grouping of the empty list is not an empty mapping: it holds the key \<open>outros\<close>.
\<close>

theorem empty_grouping_counterexample:
  "group_by_topic heap_example [] = [(''outros'', [])] \<and> group_by_topic heap_example [] \<noteq> []"
  by (simp add: group_by_topic_def top_entities_def Counter_def most_common_def sort_desc_def)

subsection \<open>Reproducibility of the pipeline\<close>

lemma consolidate_data_returns:
  "consolidate_data rt m fs files
     = Inr \<lparr>c_total_items = length (concat (map (load_data fs) files)),
            filtered_items = length (filtered_of m fs files),
            topics = map (\<lambda>(k, as). (k, map (\<lambda>a. filtered_of m fs files ! a) as))
                       (group_by_topic (\<lambda>a. filtered_of m fs files ! a)
                          [0 ..< length (filtered_of m fs files)]),
            trending_topics = map (with_key_facts rt (filtered_of m fs files))
                                (extract_trending_topics rt (filtered_of m fs files) 5),
            processed_at = now_processed rt\<rparr>"
proof -
  have "filter_by_engagement (filter_by_relevance m (concat (map (load_data fs) files))) (3 / 10)
          = Inr (filtered_of m fs files)"
    by (simp add: filter_by_engagement_returns filtered_of_def Let_def)
  then show ?thesis
    by (simp add: consolidate_data_def Let_def with_key_facts_def [abs_def])
qed

lemma qualifying_same_text_functions:
  assumes "str_lower rt2 = str_lower rt1" "str_split rt2 = str_split rt1"
    "sent_tokenize rt2 = sent_tokenize rt1"
  shows "qualifying rt2 data tp = qualifying rt1 data tp"
proof -
  have m: "mentions_topic rt2 = mentions_topic rt1"
    using assms(1) by (intro ext) (simp add: mentions_topic_def)
  show ?thesis
    using assms by (simp add: qualifying_def topic_sentences_def Let_def m)
qed

lemma stable_trending_topics:
  assumes ok1: "set_order_ok (set_order rt1)" and ok2: "set_order_ok (set_order rt2)"
    and same: "str_lower rt2 = str_lower rt1" "str_split rt2 = str_split rt1"
      "sent_tokenize rt2 = sent_tokenize rt1"
  shows "map stable_topic (map (with_key_facts rt1 data) (extract_trending_topics rt1 data n))
       = map stable_topic (map (with_key_facts rt2 data) (extract_trending_topics rt2 data n))"
proof -
  have len: "length (extract_key_facts rt1 data tp) = length (extract_key_facts rt2 data tp)" for tp
    using key_facts_properties(3) [OF ok1, of data tp] key_facts_properties(3) [OF ok2, of data tp]
      qualifying_same_text_functions [OF same, of data tp] by simp
  have s1: "set (set_order rt1 xs) = set xs" and s2: "set (set_order rt2 xs) = set xs" for xs
    using ok1 ok2 by (simp_all add: set_order_ok_def)
  show ?thesis
    unfolding extract_trending_topics_def Let_def map_map
    by (rule map_cong)
       (auto simp: stable_topic_def with_key_facts_def trend_candidate.defs trend_topic.defs
          s1 s2 len)
qed

lemma stable_insights:
  "map stable_insight (generate_topic_insights thr c)
     = sort_key (\<lambda>p. - fst p) (map (insight_of_stable thr) (map stable_topic (trending_topics c)))"
proof -
  have s: "map stable_insight (sort_desc trend_score xs)
         = sort_key (\<lambda>p. - fst p) (map stable_insight xs)" for xs
    unfolding sort_desc_def sort_key_map by (simp add: stable_insight_def)
  have m: "stable_insight (insight_of thr t) = insight_of_stable thr (stable_topic t)" for t
    by (simp add: stable_insight_def insight_of_def insight_of_stable_def stable_topic_def
          stable_score_def score_def)
  show ?thesis
    unfolding generate_topic_insights_def s by (simp add: m o_def)
qed

lemma stable_high_band:
  "map stable_recommendation
     (map (\<lambda>t. \<lparr>rec_topic = topic t, rec_key_facts = key_facts t,
                  rec_text = CriarMateria (topic t),
                  priority = (if length (key_facts t) \<ge> 3 then Alta else Media)\<rparr>)
          (filter (\<lambda>t. score t > thr) ts))
   = map (\<lambda>(tp, c, a, S, r, l). (tp, CriarMateria tp, if l \<ge> 3 then Alta else Media, l))
         (filter (\<lambda>p. stable_score p > thr) (map stable_topic ts))"
  by (induction ts)
     (simp_all add: stable_recommendation_def stable_topic_def stable_score_def score_def)

lemma stable_medium_band:
  "map stable_recommendation
     (concat (map (\<lambda>t. if length (key_facts t) \<ge> 2
                        then [\<lparr>rec_topic = topic t, rec_key_facts = key_facts t,
                               rec_text = ConsiderarMateria (topic t), priority = Media\<rparr>]
                        else [])
                  (filter (\<lambda>t. score t > thr / 2 \<and> score t \<le> thr) ts)))
   = concat (map (\<lambda>(tp, c, a, S, r, l). if l \<ge> 2 then [(tp, ConsiderarMateria tp, Media, l)] else [])
                 (filter (\<lambda>p. stable_score p > thr / 2 \<and> stable_score p \<le> thr)
                         (map stable_topic ts)))"
  by (induction ts)
     (simp_all add: stable_recommendation_def stable_topic_def stable_score_def score_def)

lemma stable_recommendations:
  "map stable_recommendation (generate_content_recommendations thr c)
     = recommendations_of_stable thr (map stable_topic (trending_topics c))"
  unfolding generate_content_recommendations_def Let_def recommendations_of_stable_def
  by (simp only: map_append stable_high_band stable_medium_band)

lemma same_set_order_same_topics:
  assumes "set_order rt2 = set_order rt1"
    and "str_lower rt2 = str_lower rt1" "str_split rt2 = str_split rt1"
      "sent_tokenize rt2 = sent_tokenize rt1"
  shows "map (with_key_facts rt2 data) (extract_trending_topics rt2 data n)
       = map (with_key_facts rt1 data) (extract_trending_topics rt1 data n)"
proof -
  have m: "mentions_topic rt2 = mentions_topic rt1"
    using assms(2) by (intro ext) (simp add: mentions_topic_def)
  have ts: "topic_sentences rt2 data tp = topic_sentences rt1 data tp" for tp
    using assms(4) by (simp add: topic_sentences_def Let_def m cong: if_cong)
  have k: "extract_key_facts rt2 data tp = extract_key_facts rt1 data tp" for tp
    using assms(1,3) by (simp add: extract_key_facts_def ts)
  have w: "with_key_facts rt2 data = with_key_facts rt1 data"
    by (intro ext) (simp add: with_key_facts_def k)
  have e: "extract_trending_topics rt2 data n = extract_trending_topics rt1 data n"
    using assms(1) by (simp add: extract_trending_topics_def)
  show ?thesis unfolding w e ..
qed

lemma insights_of_topics_and_trends:
  assumes "topics c2 = topics c1" "trending_topics c2 = trending_topics c1"
  shows "generate_source_distribution c2 = generate_source_distribution c1"
    and "generate_topic_insights thr c2 = generate_topic_insights thr c1"
    and "generate_engagement_metrics e c2 = generate_engagement_metrics e c1"
    and "generate_content_recommendations thr c2 = generate_content_recommendations thr c1"
  using assms
  by (simp_all add: generate_source_distribution_def generate_topic_insights_def
        generate_engagement_metrics_def generate_content_recommendations_def)

lemma insights_of_topics_only:
  assumes "topics c2 = topics c1"
  shows "generate_source_distribution c2 = generate_source_distribution c1"
    and "generate_engagement_metrics e c2 = generate_engagement_metrics e c1"
  using assms by (simp_all add: generate_source_distribution_def generate_engagement_metrics_def)

text \<open>
  C4, as amended. Two runs of the pipeline on the same input snapshot both return, and
  their outputs agree in everything but the two timestamps, the order of each topic's
  sources and the choice and order of each topic's key facts (whose number is the same):
  item counts, topic clusters, every topic's name, count, average engagement, set of
  sources, related-item count and number of key facts, the source distribution, the
  engagement metrics, the ranked insights and the recommendations with their
  priorities. When the two runs iterate sets in the same order, the outputs differ in
  the timestamps only.
\<close>

theorem pipeline_reproducible_up_to_clock_and_set_order:
  assumes ok1: "set_order_ok (set_order rt1)" and ok2: "set_order_ok (set_order rt2)"
    and same: "str_lower rt2 = str_lower rt1" "str_split rt2 = str_split rt1"
      "sent_tokenize rt2 = sent_tokenize rt1"
  shows "\<exists>c1 b1 c2 b2.
           run_pipeline rt1 m e thr fs files = Inr (c1, Some b1)
         \<and> run_pipeline rt2 m e thr fs files = Inr (c2, Some b2)
         \<and> stable_consolidated c1 = stable_consolidated c2
         \<and> stable_bundle b1 = stable_bundle b2
         \<and> processed_at c1 = now_processed rt1 \<and> processed_at c2 = now_processed rt2
         \<and> generated_at b1 = now_generated rt1 \<and> generated_at b2 = now_generated rt2
         \<and> (set_order rt2 = set_order rt1 \<longrightarrow>
               c2 = c1\<lparr>processed_at := now_processed rt2\<rparr>
             \<and> b2 = b1\<lparr>generated_at := now_generated rt2\<rparr>)"
proof -
  let ?F = "filtered_of m fs files"
  let ?G = "map (\<lambda>(k, as). (k, map (\<lambda>a. ?F ! a) as))
              (group_by_topic (\<lambda>a. ?F ! a) [0 ..< length ?F])"
  let ?T = "\<lambda>rt. map (with_key_facts rt ?F) (extract_trending_topics rt ?F 5)"
  let ?C = "\<lambda>rt. \<lparr>c_total_items = length (concat (map (load_data fs) files)),
                   filtered_items = length ?F, topics = ?G, trending_topics = ?T rt,
                   processed_at = now_processed rt\<rparr>"
  let ?B = "\<lambda>rt c. \<lparr>source_distribution = generate_source_distribution c,
                     topic_insights = generate_topic_insights thr c,
                     engagement_metrics = generate_engagement_metrics e c,
                     content_recommendations = generate_content_recommendations thr c,
                     generated_at = now_generated rt\<rparr>"
  have run: "run_pipeline rt m e thr fs files = Inr (?C rt, Some (?B rt (?C rt)))" for rt
    by (simp add: run_pipeline_def consolidate_data_returns generate_all_insights_def)
  have tr: "map stable_topic (trending_topics (?C rt1)) = map stable_topic (trending_topics (?C rt2))"
    using stable_trending_topics [OF ok1 ok2 same, of ?F 5] by simp
  have sc: "stable_consolidated (?C rt1) = stable_consolidated (?C rt2)"
    using tr by (simp add: stable_consolidated_def)
  have tp: "topics (?C rt2) = topics (?C rt1)" by simp
  have sb: "stable_bundle (?B rt1 (?C rt1)) = stable_bundle (?B rt2 (?C rt2))"
    unfolding stable_bundle_def
    using tr insights_of_topics_only(1) [OF tp] insights_of_topics_only(2) [OF tp, of e]
    by (simp add: stable_insights stable_recommendations)
  have eq: "?C rt2 = (?C rt1)\<lparr>processed_at := now_processed rt2\<rparr>
          \<and> ?B rt2 (?C rt2) = (?B rt1 (?C rt1))\<lparr>generated_at := now_generated rt2\<rparr>"
    if so: "set_order rt2 = set_order rt1"
  proof -
    have t: "?T rt2 = ?T rt1" by (rule same_set_order_same_topics [OF so same])
    then have c: "?C rt2 = (?C rt1)\<lparr>processed_at := now_processed rt2\<rparr>" by simp
    have tt: "trending_topics (?C rt2) = trending_topics (?C rt1)" using t by simp
    have "?B rt2 (?C rt2) = (?B rt1 (?C rt1))\<lparr>generated_at := now_generated rt2\<rparr>"
      using insights_of_topics_and_trends(1) [OF tp tt]
        insights_of_topics_and_trends(2) [OF tp tt, of thr]
        insights_of_topics_and_trends(3) [OF tp tt, of e]
        insights_of_topics_and_trends(4) [OF tp tt, of thr]
      by simp
    with c show ?thesis by (rule conjI)
  qed
  define c1 where "c1 = ?C rt1"
  define c2 where "c2 = ?C rt2"
  define b1 where "b1 = ?B rt1 (?C rt1)"
  define b2 where "b2 = ?B rt2 (?C rt2)"
  have r1: "run_pipeline rt1 m e thr fs files = Inr (c1, Some b1)"
    unfolding c1_def b1_def by (rule run)
  have r2: "run_pipeline rt2 m e thr fs files = Inr (c2, Some b2)"
    unfolding c2_def b2_def by (rule run)
  have sc': "stable_consolidated c1 = stable_consolidated c2"
    unfolding c1_def c2_def by (rule sc)
  have sb': "stable_bundle b1 = stable_bundle b2"
    unfolding b1_def b2_def by (rule sb)
  have ts: "processed_at c1 = now_processed rt1" "processed_at c2 = now_processed rt2"
    "generated_at b1 = now_generated rt1" "generated_at b2 = now_generated rt2"
    unfolding c1_def c2_def b1_def b2_def by simp_all
  have eq': "set_order rt2 = set_order rt1 \<longrightarrow>
               c2 = c1\<lparr>processed_at := now_processed rt2\<rparr>
             \<and> b2 = b1\<lparr>generated_at := now_generated rt2\<rparr>"
    unfolding c1_def c2_def b1_def b2_def using eq by (intro impI)
  show ?thesis
    using r1 r2 sc' sb' ts eq' by blast
qed

theorem pipeline_reproducible_witness:
  "set_order_ok (set_order rt_example) \<and> set_order_ok (set_order rt_reversed)
   \<and> str_lower rt_reversed = str_lower rt_example
   \<and> str_split rt_reversed = str_split rt_example
   \<and> sent_tokenize rt_reversed = sent_tokenize rt_example
   \<and> (\<exists>c1 b1 c2 b2.
           run_pipeline rt_example (6/10) (1/2) (7/10) fs_example [''raw/g1.json''] = Inr (c1, Some b1)
         \<and> run_pipeline rt_reversed (6/10) (1/2) (7/10) fs_example [''raw/g1.json''] = Inr (c2, Some b2)
         \<and> stable_consolidated c1 = stable_consolidated c2
         \<and> stable_bundle b1 = stable_bundle b2)
   \<and> map_sum id (\<lambda>(c, b). (c_total_items c, filtered_items c, map fst (topics c),
                              map (\<lambda>t. (topic t, count t)) (trending_topics c)))
         (run_pipeline rt_example (6/10) (1/2) (7/10) fs_example [''raw/g1.json''])
       = Inr (4, 3, [''Lula'', ''Dilma'', ''outros''], [(''Lula'', 2), (''Dilma'', 2)])"
proof -
  have ok1: "set_order_ok (set_order rt_example)"
    by (simp add: rt_example_def set_order_ok_def)
  have ok2: "set_order_ok (set_order rt_reversed)"
    by (simp add: rt_reversed_def rt_example_def set_order_ok_def)
  have same: "str_lower rt_reversed = str_lower rt_example"
    "str_split rt_reversed = str_split rt_example"
    "sent_tokenize rt_reversed = sent_tokenize rt_example"
    by (simp_all add: rt_reversed_def)
  have ev: "map_sum id (\<lambda>(c, b). (c_total_items c, filtered_items c, map fst (topics c),
                              map (\<lambda>t. (topic t, count t)) (trending_topics c)))
         (run_pipeline rt_example (6/10) (1/2) (7/10) fs_example [''raw/g1.json''])
       = Inr (4, 3, [''Lula'', ''Dilma'', ''outros''], [(''Lula'', 2), (''Dilma'', 2)])"
    by code_simp
  from pipeline_reproducible_up_to_clock_and_set_order
         [OF ok1 ok2 same, of "6/10" "1/2" "7/10" fs_example "[''raw/g1.json'']"]
  have "\<exists>c1 b1 c2 b2.
           run_pipeline rt_example (6/10) (1/2) (7/10) fs_example [''raw/g1.json''] = Inr (c1, Some b1)
         \<and> run_pipeline rt_reversed (6/10) (1/2) (7/10) fs_example [''raw/g1.json''] = Inr (c2, Some b2)
         \<and> stable_consolidated c1 = stable_consolidated c2
         \<and> stable_bundle b1 = stable_bundle b2"
    by blast
  with ok1 ok2 same ev show ?thesis by (intro conjI)
qed

text \<open>
  As stated the claim fails: the output carries the reading of the clock, so a later run
  on the same snapshot returns a different bundle.
\<close>

theorem pipeline_timestamp_counterexample:
  "run_pipeline rt_example (6/10) (1/2) (7/10) fs_example [''raw/g1.json'']
     \<noteq> run_pipeline rt_later (6/10) (1/2) (7/10) fs_example [''raw/g1.json'']"
proof
  assume "run_pipeline rt_example (6/10) (1/2) (7/10) fs_example [''raw/g1.json'']
            = run_pipeline rt_later (6/10) (1/2) (7/10) fs_example [''raw/g1.json'']"
  then have "now_processed rt_example = now_processed rt_later"
    by (simp add: run_pipeline_def consolidate_data_returns)
  then show False by (simp add: rt_example_def rt_later_def)
qed

end
